theory Spec2Isabelle
  imports Complex_Main "HOL-Library.Word"
begin

section \<open>Python and tensor primitives\<close>

text \<open>
  The script \<^verbatim>\<open>Codeformer_adapt.py\<close> is modelled function by function. Tensor
  elements are \<^typ>\<open>real\<close> numbers: the model is the exact-arithmetic reading of the
  float32 computation, so rounding is outside it. Exceptions are values of
  \<open>py_error\<close>; a function that can raise returns \<open>py_error + 'a\<close>.
\<close>

datatype py_error = ValueError | ZeroDivisionError | IndexError | RuntimeError

text \<open>
  A batch of images (\<^verbatim>\<open>pertubed_images\<close>, \<^verbatim>\<open>original_images\<close>, their
  gradient) is a list of images, each image the flattened list of its \<open>3 * H * W\<close>
  elements. The operations of lines 959-961 act element by element.
\<close>

type_synonym batch = "real list list"

text \<open>\<^verbatim>\<open>torch.clamp(x, min=lo, max=hi)\<close> computes \<open>min(max(x, lo), hi)\<close>; when
  \<open>lo > hi\<close> every element becomes \<open>hi\<close>.\<close>

definition clamp :: "real \<Rightarrow> real \<Rightarrow> real \<Rightarrow> real" where
  "clamp lo hi x = min (max x lo) hi"

definition tensor_map :: "(real \<Rightarrow> real) \<Rightarrow> batch \<Rightarrow> batch" where
  "tensor_map f a = map (map f) a"

definition tensor_map2 :: "(real \<Rightarrow> real \<Rightarrow> real) \<Rightarrow> batch \<Rightarrow> batch \<Rightarrow> batch" where
  "tensor_map2 f a b = map2 (map2 f) a b"

definition tensor_add :: "batch \<Rightarrow> batch \<Rightarrow> batch" where
  "tensor_add a b = tensor_map2 (+) a b"

definition tensor_sub :: "batch \<Rightarrow> batch \<Rightarrow> batch" where
  "tensor_sub a b = tensor_map2 (-) a b"

definition scalar_mul :: "real \<Rightarrow> batch \<Rightarrow> batch" where
  "scalar_mul c a = tensor_map ((*) c) a"

definition tensor_sign :: "batch \<Rightarrow> batch" where
  "tensor_sign a = tensor_map sgn a"

definition tensor_clamp :: "real \<Rightarrow> real \<Rightarrow> batch \<Rightarrow> batch" where
  "tensor_clamp lo hi a = tensor_map (clamp lo hi) a"


section \<open>Command-line arguments (\<^verbatim>\<open>parse_args\<close>, lines 224-514)\<close>

text \<open>
  The namespace \<^verbatim>\<open>argparse\<close> returns, restricted to the arguments the modelled
  code reads. An argument whose default is \<^verbatim>\<open>None\<close> is an option.
\<close>

record args =
  alpha :: real
  eps :: real
  with_prior_preservation :: bool
  prior_loss_weight :: real
  class_data_dir :: "string option"
  class_prompt :: "string option"
  concepts_list :: "string option"
  local_rank :: int
  checkpointing_steps :: int
  max_train_steps :: int

text \<open>
  The environment variable \<^verbatim>\<open>LOCAL_RANK\<close> as line 497 sees it: unset, set to a
  string that \<^verbatim>\<open>int()\<close> reads as an integer, or set to a string that
  \<^verbatim>\<open>int()\<close> rejects (it then raises \<^verbatim>\<open>ValueError\<close>).
\<close>

datatype local_rank_env = Unset | Int_literal int | Not_an_int string

datatype warning = Class_data_dir_not_needed | Class_prompt_not_needed

text \<open>
  \<^verbatim>\<open>
  env_local_rank = int(os.environ.get("LOCAL_RANK", -1))
  if env_local_rank != -1 and env_local_rank != args.local_rank:
      args.local_rank = env_local_rank
  if args.with_prior_preservation:
      if args.concepts_list is None:
          if args.class_data_dir is None: raise ValueError(...)
          if args.class_prompt is None: raise ValueError(...)
  else:
      if args.class_data_dir is not None: warnings.warn(...)
      if args.class_prompt is not None: warnings.warn(...)
  return args
  \<close>
  The model starts from the namespace that \<^verbatim>\<open>parser.parse_args\<close> produced and returns
  the namespace together with the warnings issued, in order.
\<close>

definition parse_args :: "local_rank_env \<Rightarrow> args \<Rightarrow> py_error + (args \<times> warning list)" where
  "parse_args env a =
     (case env of
        Not_an_int s \<Rightarrow> Inl ValueError
      | _ \<Rightarrow>
        (let env_local_rank = (case env of Int_literal i \<Rightarrow> i | _ \<Rightarrow> - 1);
             a1 = (if env_local_rank \<noteq> - 1 \<and> env_local_rank \<noteq> local_rank a
                   then a\<lparr>local_rank := env_local_rank\<rparr> else a)
         in if with_prior_preservation a1 then
              (if concepts_list a1 = None then
                 (if class_data_dir a1 = None then Inl ValueError
                  else if class_prompt a1 = None then Inl ValueError
                  else Inr (a1, []))
               else Inr (a1, []))
            else Inr (a1,
                   (if class_data_dir a1 \<noteq> None then [Class_data_dir_not_needed] else []) @
                   (if class_prompt a1 \<noteq> None then [Class_prompt_not_needed] else []))))"

section \<open>The dataset (\<^verbatim>\<open>CustomDiffusionDataset\<close>, lines 84-220)\<close>

text \<open>
  The fields of the dataset that the modelled methods read (\<open>size_ds\<close> is the field
  \<^verbatim>\<open>size\<close>, \<open>prior_preservation\<close> the field \<^verbatim>\<open>with_prior_preservation\<close>); the
  two sizes count pixels and are natural numbers. The two path lists hold
  (path, prompt) pairs; \<^verbatim>\<open>__init__\<close> fills them once and nothing writes them
  afterwards, so \<^verbatim>\<open>num_instance_images\<close>, \<^verbatim>\<open>num_class_images\<close> and
  \<^verbatim>\<open>_length\<close>, which \<^verbatim>\<open>__init__\<close> computes from them (lines 133-135), are
  functions of the record.
\<close>

record dataset =
  size_ds :: nat
  mask_size :: nat
  aug :: bool
  prior_preservation :: bool
  instance_images_path :: "(string \<times> string) list"
  class_images_path :: "(string \<times> string) list"

definition num_instance_images :: "dataset \<Rightarrow> nat" where
  "num_instance_images ds = length (instance_images_path ds)"

definition num_class_images :: "dataset \<Rightarrow> nat" where
  "num_class_images ds = length (class_images_path ds)"

definition len :: "dataset \<Rightarrow> nat" where
  "len ds = max (num_class_images ds) (num_instance_images ds)"




subsection \<open>\<^verbatim>\<open>preprocess\<close> (lines 151-170)\<close>

text \<open>
  An RGB image is a list of rows, a row a list of pixels, a pixel the list of its three
  channels: the layout of \<^verbatim>\<open>np.array(image)\<close>. The mask is a list of rows.
\<close>

type_synonym rgb_image = "8 word list list list"
type_synonym float_image = "real list list list"
type_synonym mask2d = "real list list"

text \<open>Python's \<^verbatim>\<open>slice(start, stop).indices(n)\<close> with step 1: a negative bound counts
  from the end, and both bounds are clipped into \<open>0 .. n\<close>.\<close>

definition slice_bound :: "int \<Rightarrow> nat \<Rightarrow> nat" where
  "slice_bound i n = (if i < 0 then nat (max (i + int n) 0) else nat (min i (int n)))"

definition in_slice :: "int \<Rightarrow> int \<Rightarrow> nat \<Rightarrow> nat \<Rightarrow> bool" where
  "in_slice start stop n i = (slice_bound start n \<le> i \<and> i < slice_bound stop n)"

text \<open>\<^verbatim>\<open>m[r0:r1, c0:c1] = v\<close> for a scalar \<open>v\<close>.\<close>

definition assign_scalar :: "int \<Rightarrow> int \<Rightarrow> int \<Rightarrow> int \<Rightarrow> real \<Rightarrow> mask2d \<Rightarrow> mask2d" where
  "assign_scalar r0 r1 c0 c1 v m =
     map (\<lambda>(i, row).
            if in_slice r0 r1 (length m) i
            then map (\<lambda>(j, x). if in_slice c0 c1 (length row) j then v else x) (enumerate 0 row)
            else row)
         (enumerate 0 m)"

text \<open>
  \<^verbatim>\<open>canvas[top : top + inner, left : left + inner, :] = image\<close>. NumPy raises
  \<^verbatim>\<open>ValueError\<close> when the shape of \<open>img\<close> is not the shape of the slice
  (broadcasting of a smaller \<open>img\<close> is not modelled: the resized image never is one).
\<close>

definition has_shape :: "nat \<Rightarrow> nat \<Rightarrow> 'a list list list \<Rightarrow> bool" where
  "has_shape h w img =
     (length img = h \<and> (\<forall>row \<in> set img. length row = w \<and> (\<forall>px \<in> set row. length px = 3)))"

definition assign_image ::
  "nat \<Rightarrow> nat \<Rightarrow> nat \<Rightarrow> float_image \<Rightarrow> float_image \<Rightarrow> py_error + float_image" where
  "assign_image top_px left_px inner canvas img =
     (let n = length canvas;
          r0 = int top_px; r1 = int (top_px + inner); c0 = int left_px; c1 = int (left_px + inner)
      in if has_shape (slice_bound r1 n - slice_bound r0 n)
                      (slice_bound c1 n - slice_bound c0 n) img
         then Inr (map (\<lambda>(i, row).
                     if in_slice r0 r1 n i
                     then map (\<lambda>(j, px).
                            if in_slice c0 c1 (length row) j
                            then img ! (i - slice_bound r0 n) ! (j - slice_bound c0 (length row))
                            else px) (enumerate 0 row)
                     else row) (enumerate 0 canvas))
         else Inl ValueError)"

text \<open>\<^verbatim>\<open>image[top : top + inner, left : left + inner, :]\<close>: slicing clips, it never raises.\<close>

definition crop :: "nat \<Rightarrow> nat \<Rightarrow> nat \<Rightarrow> 'a list list \<Rightarrow> 'a list list" where
  "crop top_px left_px inner img = map (\<lambda>row. take inner (drop left_px row)) (take inner (drop top_px img))"

definition zeros_image :: "nat \<Rightarrow> float_image" where
  "zeros_image n = replicate n (replicate n (replicate 3 0))"

definition full :: "nat \<Rightarrow> real \<Rightarrow> mask2d" where
  "full n v = replicate n (replicate n v)"

text \<open>
  \<^verbatim>\<open>
  def preprocess(self, image, scale, resample):
      outer, inner = self.size, scale
      factor = self.size // self.mask_size
      if scale > self.size:
          outer, inner = scale, self.size
      top, left = np.random.randint(0, outer - inner + 1), np.random.randint(0, outer - inner + 1)
      image = image.resize((scale, scale), resample=resample)
      image = np.array(image).astype(np.uint8)
      image = (image / 127.5 - 1.0).astype(np.float32)
      instance_image = np.zeros((self.size, self.size, 3), dtype=np.float32)
      mask = np.zeros((self.size // factor, self.size // factor))
      if scale > self.size:
          instance_image = image[top : top + inner, left : left + inner, :]
          mask = np.ones((self.size // factor, self.size // factor))
      else:
          instance_image[top : top + inner, left : left + inner, :] = image
          mask[top // factor + 1 : (top + scale) // factor - 1,
               left // factor + 1 : (left + scale) // factor - 1] = 1.0
      return instance_image, mask
  \<close>
  The argument \<open>resample\<close> is the resizing function of the image library for the chosen
  interpolation: \<open>resample scale img\<close> stands for
  \<^verbatim>\<open>image.resize((scale, scale), resample=resample)\<close>, which raises
  \<^verbatim>\<open>ValueError\<close> for a size that is not positive. The pair \<open>(top_px, left_px)\<close> holds the
  two draws of \<^verbatim>\<open>np.random.randint(0, outer - inner + 1)\<close>, each of which lies in
  \<open>0 .. outer - inner\<close>. \<open>scale_pixels\<close> is \<^verbatim>\<open>image / 127.5 - 1.0\<close> on the bytes.
\<close>

definition scale_pixels :: "rgb_image \<Rightarrow> float_image" where
  "scale_pixels img = map (map (map (\<lambda>b. real (unat b) / 127.5 - 1.0))) img"

definition preprocess ::
  "dataset \<Rightarrow> (nat \<Rightarrow> rgb_image \<Rightarrow> rgb_image) \<Rightarrow> nat \<times> nat \<Rightarrow> rgb_image \<Rightarrow> nat
     \<Rightarrow> py_error + (float_image \<times> mask2d)" where
  "preprocess ds resample draws img scale =
     (if mask_size ds = 0 then Inl ZeroDivisionError
      else
        (let factor = size_ds ds div mask_size ds;
             inner = (if scale > size_ds ds then size_ds ds else scale);
             (top_px, left_px) = draws
         in if scale = 0 then Inl ValueError
            else
              (let image1 = scale_pixels (resample scale img)
               in if factor = 0 then Inl ZeroDivisionError
                  else if scale > size_ds ds
                  then Inr (crop top_px left_px inner image1, full (size_ds ds div factor) 1)
                  else
                    (case assign_image top_px left_px inner (zeros_image (size_ds ds)) image1 of
                       Inl e \<Rightarrow> Inl e
                     | Inr instance_image \<Rightarrow>
                         Inr (instance_image,
                              assign_scalar
                                (int (top_px div factor) + 1) (int ((top_px + scale) div factor) - 1)
                                (int (left_px div factor) + 1) (int ((left_px + scale) div factor) - 1)
                                1.0 (full (size_ds ds div factor) 0))))))"

text \<open>
  \<^verbatim>\<open>get_one_mask\<close> (lines 806-819), the closure of \<^verbatim>\<open>main\<close> that builds the mask
  of one instance image. \<open>drawn\<close> is the value of the conditional expression of lines
  809-813 (a draw of \<^verbatim>\<open>np.random.randint\<close>); it is used only when \<^verbatim>\<open>aug\<close> is set.
  \<^verbatim>\<open>
  _, one_mask = train_dataset.preprocess(image, random_scale, train_dataset.interpolation)
  one_mask = torch.from_numpy(one_mask)
  if args.with_prior_preservation:
      class_mask = torch.ones_like(one_mask)
      one_mask += class_mask
  return one_mask
  \<close>
\<close>

definition ones_like :: "mask2d \<Rightarrow> mask2d" where
  "ones_like m = map (map (\<lambda>_. 1)) m"

definition get_one_mask ::
  "args \<Rightarrow> dataset \<Rightarrow> (nat \<Rightarrow> rgb_image \<Rightarrow> rgb_image) \<Rightarrow> nat \<Rightarrow> nat \<times> nat \<Rightarrow> rgb_image
     \<Rightarrow> py_error + mask2d" where
  "get_one_mask a ds resample drawn draws img =
     (let random_scale = (if aug ds then drawn else size_ds ds)
      in case preprocess ds resample draws img random_scale of
           Inl e \<Rightarrow> Inl e
         | Inr (_, one_mask) \<Rightarrow>
             Inr (if with_prior_preservation a
                  then map2 (map2 (+)) one_mask (ones_like one_mask)
                  else one_mask))"

section \<open>The PGD update (lines 955-961)\<close>

text \<open>
  \<^verbatim>\<open>
  adv_images = pertubed_images + alpha * pertubed_images.grad.sign()
  eta = torch.clamp(adv_images - original_images, min=-eps, max=+eps)
  pertubed_images = torch.clamp(original_images + eta, min=-1, max=+1).detach_()
  \<close>
\<close>

definition pgd_update :: "real \<Rightarrow> real \<Rightarrow> batch \<Rightarrow> batch \<Rightarrow> batch \<Rightarrow> batch" where
  "pgd_update alpha_v eps_v original pertubed grad =
     (let adv_images = tensor_add pertubed (scalar_mul alpha_v (tensor_sign grad));
          eta = tensor_clamp (- eps_v) eps_v (tensor_sub adv_images original)
      in tensor_clamp (- 1) 1 (tensor_add original eta))"

section \<open>The denoising loss (lines 914-944)\<close>

text \<open>
  A tensor of latents (\<^verbatim>\<open>model_pred\<close>, \<^verbatim>\<open>target\<close>, the per-element loss) is a
  batch of items, each item a list of channels, each channel the flattened list of its
  \<open>H * W\<close> elements. The mask tensor of \<^verbatim>\<open>main\<close> has shape \<open>[N, 1, H, W]\<close>: a batch
  of flattened masks, its unit channel axis left implicit.
\<close>

type_synonym latents = "real list list list"

datatype prediction_type = Epsilon | V_prediction | Other_prediction string

text \<open>\<^verbatim>\<open>F.mse_loss(pred, target, reduction="none")\<close>.\<close>

definition mse_loss_none :: "latents \<Rightarrow> latents \<Rightarrow> latents" where
  "mse_loss_none pred target = map2 (map2 (map2 (\<lambda>x y. (x - y) ^ 2))) pred target"

definition item_sum :: "real list list \<Rightarrow> real" where
  "item_sum x = sum_list (map sum_list x)"

definition numel :: "latents \<Rightarrow> nat" where
  "numel t = sum_list (map (\<lambda>x. sum_list (map length x)) t)"

text \<open>\<^verbatim>\<open>t.mean()\<close> over all elements.\<close>

definition tensor_mean :: "latents \<Rightarrow> real" where
  "tensor_mean t = sum_list (map item_sum t) / real (numel t)"

definition list_mean :: "real list \<Rightarrow> real" where
  "list_mean xs = sum_list xs / real (length xs)"

text \<open>
  \<^verbatim>\<open>torch.chunk(t, 2, dim=0)\<close>: chunks of \<open>ceil(n / 2)\<close> items. A batch of one item
  gives a single chunk, an empty batch two empty chunks.
\<close>

definition chunk2 :: "'a list \<Rightarrow> 'a list list" where
  "chunk2 xs =
     (let n = length xs; c = (n + 1) div 2
      in if n = 0 then [[], []] else if n \<le> c then [xs] else [take c xs, drop c xs])"

text \<open>
  Broadcasting along the batch axis, as \<^verbatim>\<open>loss * mask\<close> does it: equal lengths pair
  up, a batch of one is repeated, anything else raises \<^verbatim>\<open>RuntimeError\<close>. The
  spatial axes of the loss and of the mask agree (\<^verbatim>\<open>mask_size\<close> is read off the same
  VAE at line 777), so they are multiplied position by position.
\<close>

definition broadcast_batch :: "'a list \<Rightarrow> 'b list \<Rightarrow> py_error + ('a \<times> 'b) list" where
  "broadcast_batch xs ys =
     (if length xs = length ys then Inr (zip xs ys)
      else if length ys = 1 then Inr (map (\<lambda>x. (x, hd ys)) xs)
      else if length xs = 1 then Inr (map (\<lambda>y. (hd xs, y)) ys)
      else Inl RuntimeError)"

text \<open>One batch entry of \<^verbatim>\<open>(loss * mask).sum([1, 2, 3]) / mask.sum([1, 2, 3])\<close>.\<close>

definition masked_item :: "real list list \<Rightarrow> real list \<Rightarrow> real" where
  "masked_item l m = item_sum (map (\<lambda>channel. map2 (*) channel m) l) / sum_list m"

text \<open>
  \<^verbatim>\<open>
  if args.with_prior_preservation:
      model_pred, model_pred_prior = torch.chunk(model_pred, 2, dim=0)
      target, target_prior = torch.chunk(target, 2, dim=0)
      mask = torch.chunk(mask, 2, dim=0)[0].to(accelerator.device)
      loss = F.mse_loss(model_pred.float(), target.float(), reduction="none")
      loss = ((loss * mask).sum([1, 2, 3]) / mask.sum([1, 2, 3])).mean()
      prior_loss = F.mse_loss(model_pred_prior.float(), target_prior.float(), reduction="mean")
      loss = loss + args.prior_loss_weight * prior_loss
  else:
      mask = mask.to(accelerator.device)
      loss = F.mse_loss(model_pred.float(), target.float(), reduction="none")
      #loss = ((loss * mask).sum([1, 2, 3]) / mask.sum([1, 2, 3])).mean()
      loss = loss.mean()
  \<close>
  The result is the loss handed to \<^verbatim>\<open>accelerator.backward\<close> together with the new
  value of the variable \<^verbatim>\<open>mask\<close>. Unpacking a chunking that has not exactly two
  parts raises \<^verbatim>\<open>ValueError\<close>.
\<close>

definition compute_loss ::
  "args \<Rightarrow> latents \<Rightarrow> latents \<Rightarrow> real list list \<Rightarrow> py_error + (real \<times> real list list)" where
  "compute_loss a model_pred target mask_t =
     (if with_prior_preservation a then
        (case chunk2 model_pred of
           [model_pred1, model_pred_prior] \<Rightarrow>
             (case chunk2 target of
                [target1, target_prior] \<Rightarrow>
                  (let mask1 = hd (chunk2 mask_t);
                       loss = mse_loss_none model_pred1 target1
                   in case broadcast_batch loss mask1 of
                        Inl e \<Rightarrow> Inl e
                      | Inr pairs \<Rightarrow>
                          (let loss1 = list_mean (map (\<lambda>(l, m). masked_item l m) pairs);
                               prior_loss = tensor_mean (mse_loss_none model_pred_prior target_prior)
                           in Inr (loss1 + prior_loss_weight a * prior_loss, mask1)))
              | _ \<Rightarrow> Inl ValueError)
         | _ \<Rightarrow> Inl ValueError)
      else Inr (tensor_mean (mse_loss_none model_pred target), mask_t))"

section \<open>The training loop of \<^verbatim>\<open>main\<close> (lines 789-996)\<close>

subsection \<open>Preparing the tensors (lines 789-828)\<close>





text \<open>
  The state of the loop. \<open>custom_diffusion_layers\<close> holds the adapter weights, the only
  parameters given to the optimizer (line 764); \<open>unet\<close>, \<open>vae\<close> and \<open>text_encoder\<close>
  hold the weights frozen at lines 645-647; \<open>optimizer\<close> is the optimizer's own state and
  \<open>lr_scheduler\<close> the number of scheduler steps taken. \<open>mask_tensor\<close> is the variable
  \<^verbatim>\<open>mask\<close>. \<open>disk\<close> lists the checkpoints written: the step that names the folder
  \<^verbatim>\<open>{output_dir}/{global_step}\<close> and, per image, the base name of its instance file
  (the file written is named after the step and this name) and its bytes.
  \<open>tracker\<close> lists the step and the loss that \<^verbatim>\<open>accelerator.log\<close> received.
\<close>

type_synonym checkpoint = "int \<times> (string \<times> 8 word list) list"

record ('w, 'o) train_state =
  pertubed_images :: batch
  original_images :: batch
  mask_tensor :: "real list list"
  custom_diffusion_layers :: 'w
  unet :: 'w
  vae :: 'w
  text_encoder :: 'w
  optimizer :: 'o
  lr_scheduler :: nat
  global_step :: int
  disk :: "checkpoint list"
  tracker :: "(int \<times> real) list"


subsection \<open>One training step (lines 880-994)\<close>

text \<open>
  The collaborators of the run. \<open>prediction_type\<close> is the scheduler's configuration;
  \<open>optimizer_step\<close> is \<^verbatim>\<open>optimizer.step()\<close>, from the optimizer's state, the adapter
  weights and their gradient to the new state and weights; \<open>sync_gradients\<close> and
  \<open>is_main_process\<close> are the properties of the accelerator. The accelerator of
  line 522 is built without \<^verbatim>\<open>gradient_accumulation_steps\<close>, so it accumulates over
  one step and \<open>sync_gradients\<close> holds at every step of a run.
\<close>

record ('w, 'o, 'g) collaborators =
  prediction_type :: prediction_type
  optimizer_step :: "'o \<Rightarrow> 'w \<Rightarrow> 'g \<Rightarrow> 'o \<times> 'w"
  sync_gradients :: bool
  is_main_process :: bool

text \<open>
  What the networks and autograd return at one step: the prediction of the denoising
  network, the noise and the velocity the target is chosen from (lines 884-918), and,
  after \<^verbatim>\<open>accelerator.backward(loss)\<close> and the gradient clipping, the gradient of
  the loss in the perturbed images and in the adapter weights.
\<close>

record 'g step_io =
  model_pred :: latents
  noise :: latents
  velocity :: latents
  images_grad :: batch
  layers_grad :: 'g

definition get_target :: "prediction_type \<Rightarrow> 'g step_io \<Rightarrow> py_error + latents" where
  "get_target p io =
     (case p of
        Epsilon \<Rightarrow> Inr (noise io)
      | V_prediction \<Rightarrow> Inr (velocity io)
      | Other_prediction s \<Rightarrow> Inl ValueError)"

text \<open>\<^verbatim>\<open>(img_pixel * 127.5 + 128).clamp(0, 255).to(torch.uint8)\<close> and
  \<^verbatim>\<open>str(instance_path[0]).split("/")[-1]\<close>.\<close>

definition to_uint8 :: "real \<Rightarrow> 8 word" where
  "to_uint8 x = word_of_int \<lfloor>clamp 0 255 (x * 127.5 + 128)\<rfloor>"

definition basename :: "string \<Rightarrow> string" where
  "basename path = rev (takeWhile (\<lambda>c. c \<noteq> CHR ''/'') (rev path))"

definition save_checkpoint :: "int \<Rightarrow> (string \<times> string) list \<Rightarrow> batch \<Rightarrow> checkpoint" where
  "save_checkpoint step paths noised_imgs =
     (step, map (\<lambda>(img_pixel, img_name). (img_name, map to_uint8 img_pixel))
                (zip noised_imgs (map (\<lambda>instance_path. basename (fst instance_path)) paths)))"

text \<open>
  \<^verbatim>\<open>
  accelerator.backward(loss)
  ...
  adv_images = pertubed_images + alpha * pertubed_images.grad.sign()
  eta = torch.clamp(adv_images - original_images, min=-eps, max=+eps)
  pertubed_images = torch.clamp(original_images + eta, min=-1, max=+1).detach_()
  optimizer.step()
  lr_scheduler.step()
  optimizer.zero_grad(set_to_none=args.set_grads_to_none)

  if accelerator.sync_gradients:
      progress_bar.update(1)
      global_step += 1
      if global_step % args.checkpointing_steps == 0:
          if accelerator.is_main_process:
              (save every perturbed image under {output_dir}/{global_step})
  logs = {"loss": loss.detach().item(), "lr": lr_scheduler.get_last_lr()[0]}
  accelerator.log(logs, step=global_step)
  \<close>
\<close>

definition train_step ::
  "args \<Rightarrow> dataset \<Rightarrow> ('w, 'o, 'g) collaborators \<Rightarrow> 'g step_io \<Rightarrow> ('w, 'o) train_state
     \<Rightarrow> py_error + ('w, 'o) train_state" where
  "train_step a ds E io s =
     (case get_target (prediction_type E) io of
        Inl e \<Rightarrow> Inl e
      | Inr target \<Rightarrow>
        (case compute_loss a (model_pred io) target (mask_tensor s) of
           Inl e \<Rightarrow> Inl e
         | Inr (loss, mask1) \<Rightarrow>
           (let pertubed1 = pgd_update (alpha a) (eps a) (original_images s)
                              (pertubed_images s) (images_grad io);
                (opt1, layers1) = optimizer_step E (optimizer s) (custom_diffusion_layers s)
                                    (layers_grad io);
                s1 = s\<lparr>pertubed_images := pertubed1, mask_tensor := mask1,
                       custom_diffusion_layers := layers1, optimizer := opt1,
                       lr_scheduler := Suc (lr_scheduler s)\<rparr>
            in if sync_gradients E then
                 (let step1 = global_step s + 1
                  in if checkpointing_steps a = 0 then Inl ZeroDivisionError
                     else if step1 mod checkpointing_steps a = 0 \<and> is_main_process E
                     then Inr (s1\<lparr>global_step := step1,
                                  disk := disk s @
                                    [save_checkpoint step1 (instance_images_path ds) pertubed1],
                                  tracker := tracker s @ [(step1, loss)]\<rparr>)
                     else Inr (s1\<lparr>global_step := step1,
                                  tracker := tracker s @ [(step1, loss)]\<rparr>))
               else Inr (s1\<lparr>tracker := tracker s @ [(global_step s, loss)]\<rparr>))))"

subsection \<open>The loop (lines 879-994)\<close>

text \<open>
  \<^verbatim>\<open>for epoch in range(first_epoch, args.max_train_steps)\<close> with one step per epoch
  (the \<^verbatim>\<open>break\<close> of line 994 leaves the inner loop of one iteration only). An
  exception ends the run. \<open>ios\<close> gives, for each epoch, what the collaborators return.
\<close>

fun train_loop ::
  "args \<Rightarrow> dataset \<Rightarrow> ('w, 'o, 'g) collaborators \<Rightarrow> 'g step_io list \<Rightarrow> ('w, 'o) train_state
     \<Rightarrow> py_error + ('w, 'o) train_state" where
  "train_loop a ds E [] s = Inr s"
| "train_loop a ds E (io # ios) s =
     (case train_step a ds E io s of
        Inl e \<Rightarrow> Inl e
      | Inr s1 \<Rightarrow> train_loop a ds E ios s1)"

definition training ::
  "args \<Rightarrow> dataset \<Rightarrow> ('w, 'o, 'g) collaborators \<Rightarrow> (nat \<Rightarrow> 'g step_io) \<Rightarrow> ('w, 'o) train_state
     \<Rightarrow> py_error + ('w, 'o) train_state" where
  "training a ds E ios s = train_loop a ds E (map ios [0..<nat (max_train_steps a)]) s"

section \<open>Properties and a small run\<close>





text \<open>A run on one image of two elements, used to evaluate the model: no prior
  preservation, a checkpoint every second step.\<close>

definition example_args :: args where
  "example_args =
     \<lparr>alpha = 1 / 100, eps = 1 / 10, with_prior_preservation = False, prior_loss_weight = 1,
      class_data_dir = None, class_prompt = None, concepts_list = None, local_rank = - 1,
      checkpointing_steps = 2, max_train_steps = 1\<rparr>"

definition example_dataset :: dataset where
  "example_dataset =
     \<lparr>size_ds = 6, mask_size = 3, aug = False, prior_preservation = False,
      instance_images_path = [(''data/a.jpg'', ''photo'')], class_images_path = []\<rparr>"

definition example_collaborators :: "(int, nat, int) collaborators" where
  "example_collaborators =
     \<lparr>prediction_type = Epsilon, optimizer_step = (\<lambda>opt w g. (Suc opt, w - g)),
      sync_gradients = True, is_main_process = True\<rparr>"

definition example_io :: "int step_io" where
  "example_io =
     \<lparr>model_pred = [[[1, 0]]], noise = [[[0, 0]]], velocity = [[[0, 0]]],
      images_grad = [[1, - 2]], layers_grad = 1\<rparr>"

definition example_state :: "(int, nat) train_state" where
  "example_state =
     \<lparr>pertubed_images = [[- 1, 1]], original_images = [[- 1, 1]], mask_tensor = [[1, 0]],
      custom_diffusion_layers = 5, unet = 7, vae = 8, text_encoder = 9, optimizer = 0,
      lr_scheduler = 0, global_step = 0, disk = [], tracker = []\<rparr>"

definition example_state_after :: "(int, nat) train_state" where
  "example_state_after =
     \<lparr>pertubed_images = [[- (99 / 100), 99 / 100]], original_images = [[- 1, 1]],
      mask_tensor = [[1, 0]], custom_diffusion_layers = 4, unet = 7, vae = 8,
      text_encoder = 9, optimizer = 1, lr_scheduler = 1, global_step = 1, disk = [],
      tracker = [(1, 1 / 2)]\<rparr>"

text \<open>A step with prior preservation on two images, from a state whose mask has two
  entries.\<close>

definition example_prior_io :: "int step_io" where
  "example_prior_io =
     \<lparr>model_pred = [[[1, 0]], [[3, 0]]], noise = [[[0, 0]], [[0, 0]]],
      velocity = [[[0, 0]], [[0, 0]]], images_grad = [[1, - 2], [0, 3]], layers_grad = 1\<rparr>"

definition example_prior_state :: "(int, nat) train_state" where
  "example_prior_state =
     \<lparr>pertubed_images = [[- 1, 1], [0, 1 / 2]], original_images = [[- 1, 1], [0, 1 / 2]],
      mask_tensor = [[1, 2], [2, 2]],
      custom_diffusion_layers = 5, unet = 7, vae = 8, text_encoder = 9, optimizer = 0,
      lr_scheduler = 0, global_step = 0, disk = [], tracker = []\<rparr>"

definition example_prior_state_after :: "(int, nat) train_state" where
  "example_prior_state_after =
     \<lparr>pertubed_images = [[- (99 / 100), 99 / 100], [0, 51 / 100]],
      original_images = [[- 1, 1], [0, 1 / 2]], mask_tensor = [[1, 2]],
      custom_diffusion_layers = 4, unet = 7, vae = 8, text_encoder = 9, optimizer = 1,
      lr_scheduler = 1, global_step = 1, disk = [], tracker = [(1, 29 / 6)]\<rparr>"

text \<open>
  \<^verbatim>\<open>int()\<close> reads the value of \<^verbatim>\<open>LOCAL_RANK\<close>; and the condition under which
  the checks of lines 501-506 reject the arguments: prior preservation is on, no concepts
  list is given, and the class data directory or the class prompt is missing.
\<close>

definition readable :: "local_rank_env \<Rightarrow> bool" where
  "readable env = (case env of Not_an_int s \<Rightarrow> False | _ \<Rightarrow> True)"

definition prior_arguments_missing :: "args \<Rightarrow> bool" where
  "prior_arguments_missing a =
     (with_prior_preservation a \<and> concepts_list a = None \<and>
      (class_data_dir a = None \<or> class_prompt a = None))"



text \<open>
  A resizing function to evaluate \<^verbatim>\<open>preprocess\<close> with (nearest neighbour), and the
  properties of its result: the instance image is zero outside the square where the
  resized image was placed; the ones of the mask lie only in the interior
  \<open>[top // factor + 1, (top + scale) // factor - 1)\<close> by
  \<open>[left // factor + 1, (left + scale) // factor - 1)\<close>, the bounds read as integers;
  the mask is all ones.
\<close>

definition nearest :: "nat \<Rightarrow> rgb_image \<Rightarrow> rgb_image" where
  "nearest n img =
     map (\<lambda>i. map (\<lambda>j. img ! (i * length img div n) ! (j * length (hd img) div n)) [0..<n]) [0..<n]"

definition ones_only_in_interior :: "nat \<Rightarrow> nat \<Rightarrow> nat \<Rightarrow> nat \<Rightarrow> mask2d \<Rightarrow> bool" where
  "ones_only_in_interior factor top_px left_px scale m =
     (\<forall>i \<in> set [0..<length m]. \<forall>j \<in> set [0..<length (m ! i)].
        m ! i ! j = 1 \<longrightarrow>
          int (top_px div factor) + 1 \<le> int i \<and> int i < int ((top_px + scale) div factor) - 1 \<and>
          int (left_px div factor) + 1 \<le> int j \<and> int j < int ((left_px + scale) div factor) - 1)"

definition zero_outside :: "nat \<Rightarrow> nat \<Rightarrow> nat \<Rightarrow> float_image \<Rightarrow> bool" where
  "zero_outside top_px left_px scale img =
     (\<forall>i \<in> set [0..<length img]. \<forall>j \<in> set [0..<length (img ! i)].
        \<not> (top_px \<le> i \<and> i < top_px + scale \<and> left_px \<le> j \<and> j < left_px + scale) \<longrightarrow>
          img ! i ! j = [0, 0, 0])"

definition all_ones :: "mask2d \<Rightarrow> bool" where
  "all_ones m = (\<forall>row \<in> set m. \<forall>x \<in> set row. x = 1)"

section \<open>Shapes and elements of the tensor operations\<close>
















section \<open>Evaluating the small run\<close>

lemmas tensor_defs =
  pgd_update_def tensor_add_def tensor_sub_def scalar_mul_def tensor_sign_def tensor_clamp_def
  tensor_map_def tensor_map2_def clamp_def

lemmas loss_defs =
  compute_loss_def mse_loss_none_def tensor_mean_def item_sum_def numel_def list_mean_def
  chunk2_def broadcast_batch_def masked_item_def

lemmas example_defs =
  example_args_def example_dataset_def example_collaborators_def example_io_def
  example_state_def example_state_after_def


lemma example_step:
  "train_step example_args example_dataset example_collaborators example_io example_state =
     Inr example_state_after"
  by (simp add: train_step_def get_target_def Let_def tensor_defs loss_defs example_defs)



lemma example_prior_step:
  "train_step (example_args\<lparr>with_prior_preservation := True\<rparr>) example_dataset
     example_collaborators example_prior_io example_prior_state =
   Inr example_prior_state_after"
  by (simp add: train_step_def get_target_def Let_def tensor_defs loss_defs example_defs
      example_prior_io_def example_prior_state_def example_prior_state_after_def)

section \<open>What one step and the loop change\<close>

lemma train_step_fields:
  assumes "train_step a ds E io s = Inr s'"
  shows "pertubed_images s' = pgd_update (alpha a) (eps a) (original_images s)
                                (pertubed_images s) (images_grad io)"
    and "custom_diffusion_layers s' =
           snd (optimizer_step E (optimizer s) (custom_diffusion_layers s) (layers_grad io))"
    and "optimizer s' =
           fst (optimizer_step E (optimizer s) (custom_diffusion_layers s) (layers_grad io))"
    and "lr_scheduler s' = Suc (lr_scheduler s)"
    and "original_images s' = original_images s"
    and "unet s' = unet s" and "vae s' = vae s" and "text_encoder s' = text_encoder s"
  using assms unfolding train_step_def
  by (auto simp: Let_def split: sum.splits prod.splits if_splits)










lemma train_step_global_step:
  assumes "train_step a ds E io s = Inr s'" "sync_gradients E"
  shows "global_step s' = global_step s + 1"
    and "checkpointing_steps a \<noteq> 0"
    and "disk s' = (if checkpointing_steps a dvd global_step s' \<and> is_main_process E
                    then disk s @ [save_checkpoint (global_step s') (instance_images_path ds)
                                     (pertubed_images s')]
                    else disk s)"
  using assms unfolding train_step_def
  by (auto simp: Let_def dvd_eq_mod_eq_0 split: sum.splits prod.splits if_splits)

lemma train_loop_global_step:
  assumes "train_loop a ds E ios s = Inr s'" "sync_gradients E"
  shows "global_step s' = global_step s + int (length ios)"
  using assms
proof (induction ios arbitrary: s)
  case Nil
  then show ?case by simp
next
  case (Cons io ios)
  then obtain s1 where s1: "train_step a ds E io s = Inr s1" "train_loop a ds E ios s1 = Inr s'"
    by (auto split: sum.splits)
  show ?case using Cons.IH[OF s1(2) Cons.prems(2)] train_step_global_step(1)[OF s1(1) Cons.prems(2)]
    by simp
qed

lemma train_step_mask:
  assumes "train_step a ds E io s = Inr s'" "\<not> with_prior_preservation a"
  shows "mask_tensor s' = mask_tensor s"
  using assms unfolding train_step_def compute_loss_def
  by (auto simp: Let_def split: sum.splits prod.splits if_splits)


section \<open>The perturbation stays in the ball and in the pixel range\<close>




section \<open>The update is a gradient-sign step followed by two clippings\<close>



section \<open>Every iteration performs both updates\<close>



section \<open>What training leaves untouched\<close>

text \<open>
  C6 (amended). Throughout training \<^verbatim>\<open>original_images\<close> is never written and the
  frozen weights of the VAE, the text encoder and the denoising network's backbone are
  never updated; without prior preservation the mask is left as it was, too. A
  training step changes the perturbed image tensor and the adapter weights, and
  besides them the optimizer's and the scheduler's state, the global step counter, the
  tracker's log and, at a checkpoint, the disk.
\<close>

theorem frozen_state_unchanged:
  assumes "train_loop a ds E ios s = Inr s'"
  shows "original_images s' = original_images s \<and> unet s' = unet s \<and> vae s' = vae s \<and>
         text_encoder s' = text_encoder s \<and>
         (\<not> with_prior_preservation a \<longrightarrow> mask_tensor s' = mask_tensor s)"
  using assms
proof (induction ios arbitrary: s)
  case Nil
  then show ?case by simp
next
  case (Cons io ios)
  then obtain s1 where s1: "train_step a ds E io s = Inr s1" "train_loop a ds E ios s1 = Inr s'"
    by (auto split: sum.splits)
  show ?case
    using Cons.IH[OF s1(2)] train_step_fields(5-8)[OF s1(1)] train_step_mask[OF s1(1)] by simp
qed

theorem frozen_state_unchanged_witness:
  "\<not> with_prior_preservation example_args \<and>
   original_images example_state_after = original_images example_state \<and>
   unet example_state_after = unet example_state \<and>
   mask_tensor example_state_after = mask_tensor example_state"
proof -
  have l: "train_loop example_args example_dataset example_collaborators [example_io]
             example_state = Inr example_state_after"
    by (simp add: example_step)
  have p: "\<not> with_prior_preservation example_args" by (simp add: example_args_def)
  show ?thesis
    using frozen_state_unchanged[OF l] p by simp
qed

text \<open>
  As stated, the claim fails: the perturbed images and the adapter weights are not the
  only state a step mutates. After a step with prior preservation on two images the
  state differs from the old state with those two replaced: the global step counter
  has moved, and the mask has lost its second entry.
\<close>

theorem frozen_state_unchanged_counterexample:
  "train_step (example_args\<lparr>with_prior_preservation := True\<rparr>) example_dataset
     example_collaborators example_prior_io example_prior_state =
     Inr example_prior_state_after \<and>
   example_prior_state_after \<noteq>
     example_prior_state\<lparr>pertubed_images := pertubed_images example_prior_state_after,
       custom_diffusion_layers := custom_diffusion_layers example_prior_state_after\<rparr> \<and>
   global_step example_prior_state_after \<noteq> global_step example_prior_state \<and>
   mask_tensor example_prior_state_after \<noteq> mask_tensor example_prior_state"
  by (simp add: example_prior_step)
    (simp add: example_prior_state_def example_prior_state_after_def)

section \<open>Checkpoints\<close>

text \<open>A whole run takes \<^verbatim>\<open>max_train_steps\<close> steps (none when the number is not
  positive), each of which advances the counter.\<close>

lemma training_global_step:
  assumes "training a ds E ios s = Inr s'" "sync_gradients E"
  shows "global_step s' = global_step s + int (nat (max_train_steps a))"
  using train_loop_global_step[OF assms(1)[unfolded training_def] assms(2)] by simp



section \<open>When \<^verbatim>\<open>parse_args\<close> raises\<close>

lemma parse_args_unreadable: "parse_args (Not_an_int s) a = Inl ValueError"
  by (simp add: parse_args_def)

lemma parse_args_readable:
  assumes "readable env"
  shows "\<exists>r. parse_args env a =
           (if with_prior_preservation a then
              (if concepts_list a = None \<and> (class_data_dir a = None \<or> class_prompt a = None)
               then Inl ValueError else Inr (a\<lparr>local_rank := r\<rparr>, []))
            else Inr (a\<lparr>local_rank := r\<rparr>,
                   (if class_data_dir a \<noteq> None then [Class_data_dir_not_needed] else []) @
                   (if class_prompt a \<noteq> None then [Class_prompt_not_needed] else [])))"
proof -
  define e where "e = (case env of Int_literal i \<Rightarrow> i | _ \<Rightarrow> - 1)"
  define a1 where "a1 = (if e \<noteq> - 1 \<and> e \<noteq> local_rank a then a\<lparr>local_rank := e\<rparr> else a)"
  have f: "with_prior_preservation a1 = with_prior_preservation a"
    "concepts_list a1 = concepts_list a" "class_data_dir a1 = class_data_dir a"
    "class_prompt a1 = class_prompt a"
    by (simp_all add: a1_def)
  have r: "a1 = a\<lparr>local_rank := local_rank a1\<rparr>" by (simp add: a1_def)
  have "parse_args env a =
           (if with_prior_preservation a1 then
              (if concepts_list a1 = None then
                 (if class_data_dir a1 = None then Inl ValueError
                  else if class_prompt a1 = None then Inl ValueError
                  else Inr (a1, []))
               else Inr (a1, []))
            else Inr (a1,
                   (if class_data_dir a1 \<noteq> None then [Class_data_dir_not_needed] else []) @
                   (if class_prompt a1 \<noteq> None then [Class_prompt_not_needed] else [])))"
    using assms unfolding parse_args_def readable_def Let_def e_def a1_def
    by (cases env) simp_all
  then have "parse_args env a =
           (if with_prior_preservation a then
              (if concepts_list a = None \<and> (class_data_dir a = None \<or> class_prompt a = None)
               then Inl ValueError else Inr (a\<lparr>local_rank := local_rank a1\<rparr>, []))
            else Inr (a\<lparr>local_rank := local_rank a1\<rparr>,
                   (if class_data_dir a \<noteq> None then [Class_data_dir_not_needed] else []) @
                   (if class_prompt a \<noteq> None then [Class_prompt_not_needed] else [])))"
    unfolding f using r by presburger
  then show ?thesis by (rule exI)
qed

text \<open>
  C10 (amended). \<^verbatim>\<open>parse_args\<close> raises \<^verbatim>\<open>ValueError\<close> if and only if the
  environment variable \<^verbatim>\<open>LOCAL_RANK\<close> holds a string that \<^verbatim>\<open>int()\<close> rejects,
  or \<^verbatim>\<open>--with_prior_preservation\<close> is set, no concepts list is given, and the class
  data directory or the class prompt is missing. When \<^verbatim>\<open>--with_prior_preservation\<close>
  is not set and \<^verbatim>\<open>LOCAL_RANK\<close> is readable, a class data directory or a class
  prompt produces a warning each and nothing else: parsing succeeds and returns the
  namespace, with at most its local rank replaced.
\<close>

theorem parse_args_value_error:
  "(parse_args env a = Inl ValueError \<longleftrightarrow> \<not> readable env \<or> prior_arguments_missing a) \<and>
   (readable env \<and> \<not> with_prior_preservation a \<longrightarrow>
      (\<exists>r. parse_args env a =
         Inr (a\<lparr>local_rank := r\<rparr>,
              (if class_data_dir a \<noteq> None then [Class_data_dir_not_needed] else []) @
              (if class_prompt a \<noteq> None then [Class_prompt_not_needed] else []))))"
proof (cases "readable env")
  case False
  then obtain s where "env = Not_an_int s" by (cases env) (simp_all add: readable_def)
  then show ?thesis using False by (simp add: parse_args_unreadable)
next
  case True
  obtain r where r: "parse_args env a =
           (if with_prior_preservation a then
              (if concepts_list a = None \<and> (class_data_dir a = None \<or> class_prompt a = None)
               then Inl ValueError else Inr (a\<lparr>local_rank := r\<rparr>, []))
            else Inr (a\<lparr>local_rank := r\<rparr>,
                   (if class_data_dir a \<noteq> None then [Class_data_dir_not_needed] else []) @
                   (if class_prompt a \<noteq> None then [Class_prompt_not_needed] else [])))"
    using parse_args_readable[OF True] by blast
  have 1: "parse_args env a = Inl ValueError \<longleftrightarrow> \<not> readable env \<or> prior_arguments_missing a"
    unfolding r prior_arguments_missing_def using True by simp
  have 2: "readable env \<and> \<not> with_prior_preservation a \<longrightarrow>
      (\<exists>r. parse_args env a =
         Inr (a\<lparr>local_rank := r\<rparr>,
              (if class_data_dir a \<noteq> None then [Class_data_dir_not_needed] else []) @
              (if class_prompt a \<noteq> None then [Class_prompt_not_needed] else [])))"
  proof
    assume "readable env \<and> \<not> with_prior_preservation a"
    then have "parse_args env a =
         Inr (a\<lparr>local_rank := r\<rparr>,
              (if class_data_dir a \<noteq> None then [Class_data_dir_not_needed] else []) @
              (if class_prompt a \<noteq> None then [Class_prompt_not_needed] else []))"
      unfolding r by simp
    then show "\<exists>r. parse_args env a =
         Inr (a\<lparr>local_rank := r\<rparr>,
              (if class_data_dir a \<noteq> None then [Class_data_dir_not_needed] else []) @
              (if class_prompt a \<noteq> None then [Class_prompt_not_needed] else []))"
      by (rule exI)
  qed
  show ?thesis using 1 2 by (rule conjI)
qed

theorem parse_args_value_error_witness:
  "readable Unset \<and> \<not> with_prior_preservation (example_args\<lparr>class_prompt := Some ''a dog''\<rparr>) \<and>
   parse_args Unset (example_args\<lparr>class_prompt := Some ''a dog''\<rparr>) \<noteq> Inl ValueError \<and>
   parse_args Unset (example_args\<lparr>class_prompt := Some ''a dog''\<rparr>) =
     Inr (example_args\<lparr>class_prompt := Some ''a dog''\<rparr>, [Class_prompt_not_needed])"
proof -
  have r: "readable Unset" by (simp add: readable_def)
  have p: "\<not> with_prior_preservation (example_args\<lparr>class_prompt := Some ''a dog''\<rparr>)"
    by (simp add: example_args_def)
  have m: "\<not> prior_arguments_missing (example_args\<lparr>class_prompt := Some ''a dog''\<rparr>)"
    using p by (simp add: prior_arguments_missing_def)
  have v: "parse_args Unset (example_args\<lparr>class_prompt := Some ''a dog''\<rparr>) =
     Inr (example_args\<lparr>class_prompt := Some ''a dog''\<rparr>, [Class_prompt_not_needed])"
    by (simp add: parse_args_def example_args_def)
  show ?thesis
    using parse_args_value_error[of Unset "example_args\<lparr>class_prompt := Some ''a dog''\<rparr>"] r p m v
    by simp
qed

text \<open>
  As stated, the "only if" fails: with \<^verbatim>\<open>LOCAL_RANK=abc\<close> line 497 raises
  \<^verbatim>\<open>ValueError\<close> although prior preservation is off.
\<close>

theorem parse_args_value_error_counterexample:
  "parse_args (Not_an_int ''abc'') example_args = Inl ValueError \<and>
   \<not> prior_arguments_missing example_args"
  by (simp add: parse_args_def prior_arguments_missing_def example_args_def)

section \<open>Indexing the dataset\<close>




section \<open>Which loss is masked\<close>










section \<open>The result of \<^verbatim>\<open>preprocess\<close>\<close>

lemma slice_bound_nat: "slice_bound (int k) n = min k n"
  by (simp add: slice_bound_def)

lemma slice_bound_nat_add: "slice_bound (int a + int b) n = min (a + b) n"
  using slice_bound_nat[of "a + b" n] by simp

lemma nth_map_enumerate: "i < length xs \<Longrightarrow> map f (enumerate 0 xs) ! i = f (i, xs ! i)"
  by (simp add: nth_enumerate_eq)

lemma has_shape_nth:
  "has_shape h w img \<longleftrightarrow>
     length img = h \<and> (\<forall>i < h. length (img ! i) = w \<and> (\<forall>j < w. length (img ! i ! j) = 3))"
  unfolding has_shape_def all_set_conv_all_nth by auto

lemma has_shape_scale_pixels: "has_shape h w (scale_pixels img) = has_shape h w img"
  by (auto simp: has_shape_def scale_pixels_def)

lemma length_assign_scalar: "length (assign_scalar r0 r1 c0 c1 v m) = length m"
  by (simp add: assign_scalar_def)

lemma length_assign_scalar_nth:
  "i < length m \<Longrightarrow> length (assign_scalar r0 r1 c0 c1 v m ! i) = length (m ! i)"
  by (simp add: assign_scalar_def nth_enumerate_eq)

lemma assign_scalar_nth:
  "i < length m \<Longrightarrow> j < length (m ! i) \<Longrightarrow>
     assign_scalar r0 r1 c0 c1 v m ! i ! j =
       (if in_slice r0 r1 (length m) i \<and> in_slice c0 c1 (length (m ! i)) j then v else m ! i ! j)"
  by (simp add: assign_scalar_def nth_enumerate_eq)

lemma full_nth: "i < n \<Longrightarrow> j < n \<Longrightarrow> full n v ! i ! j = v"
  by (simp add: full_def)

lemma length_full: "length (full n v) = n" "i < n \<Longrightarrow> length (full n v ! i) = n"
  by (simp_all add: full_def)

lemma preprocess_large:
  assumes "0 < mask_size ds" "mask_size ds \<le> size_ds ds" "size_ds ds < scale"
  shows "preprocess ds resample (top_px, left_px) img scale =
           Inr (crop top_px left_px (size_ds ds) (scale_pixels (resample scale img)),
                full (size_ds ds div (size_ds ds div mask_size ds)) 1)"
proof -
  have "0 < size_ds ds div mask_size ds" using assms(1,2) by (simp add: div_greater_zero_iff)
  then show ?thesis using assms by (simp add: preprocess_def Let_def)
qed

lemma crop_shape:
  assumes "has_shape scale scale img" "top_px + n \<le> scale" "left_px + n \<le> scale"
  shows "has_shape n n (crop top_px left_px n img)"
    and "\<And>i j. i < n \<Longrightarrow> j < n \<Longrightarrow> crop top_px left_px n img ! i ! j = img ! (top_px + i) ! (left_px + j)"
proof -
  have sh: "length img = scale" "\<And>i. i < scale \<Longrightarrow> length (img ! i) = scale"
    "\<And>i j. i < scale \<Longrightarrow> j < scale \<Longrightarrow> length (img ! i ! j) = 3"
    using assms(1) unfolding has_shape_nth by auto
  have len: "length (crop top_px left_px n img) = n"
    using sh(1) assms(2) by (simp add: crop_def)
  have row: "crop top_px left_px n img ! i = take n (drop left_px (img ! (top_px + i)))" if "i < n" for i
    using that sh(1) assms(2) by (simp add: crop_def)
  show nth: "crop top_px left_px n img ! i ! j = img ! (top_px + i) ! (left_px + j)"
    if "i < n" "j < n" for i j
    using that row[OF that(1)] sh(2)[of "top_px + i"] assms(2,3) by simp
  show "has_shape n n (crop top_px left_px n img)"
    unfolding has_shape_nth
  proof (intro conjI allI impI)
    show "length (crop top_px left_px n img) = n" by (rule len)
  next
    fix i assume i: "i < n"
    show "length (crop top_px left_px n img ! i) = n"
      using row[OF i] sh(2)[of "top_px + i"] assms(2,3) i by simp
  next
    fix i j assume "i < n" "j < n"
    then show "length (crop top_px left_px n img ! i ! j) = 3"
      using nth[of i j] sh(3)[of "top_px + i" "left_px + j"] assms(2,3) by simp
  qed
qed

lemma zeros_image_nth:
  "length (zeros_image n) = n" "i < n \<Longrightarrow> length (zeros_image n ! i) = n"
  "i < n \<Longrightarrow> j < n \<Longrightarrow> zeros_image n ! i ! j = [0, 0, 0]"
  by (simp_all add: zeros_image_def numeral_3_eq_3)

lemma assign_image_ok:
  assumes "has_shape scale scale img" "top_px + scale \<le> n" "left_px + scale \<le> n"
  shows "\<exists>r. assign_image top_px left_px scale (zeros_image n) img = Inr r \<and>
             length r = n \<and> (\<forall>i < n. length (r ! i) = n \<and>
               (\<forall>j < n. r ! i ! j =
                  (if top_px \<le> i \<and> i < top_px + scale \<and> left_px \<le> j \<and> j < left_px + scale
                   then img ! (i - top_px) ! (j - left_px) else [0, 0, 0])))"
proof -
  have b: "slice_bound (int top_px) n = top_px" "slice_bound (int (top_px + scale)) n = top_px + scale"
    "slice_bound (int left_px) n = left_px" "slice_bound (int (left_px + scale)) n = left_px + scale"
    using assms(2,3) by (simp_all add: slice_bound_nat slice_bound_nat_add)
  let ?r = "map (\<lambda>(i, row).
                     if in_slice (int top_px) (int (top_px + scale)) n i
                     then map (\<lambda>(j, px).
                            if in_slice (int left_px) (int (left_px + scale)) (length row) j
                            then img ! (i - slice_bound (int top_px) n) ! (j - slice_bound (int left_px) (length row))
                            else px) (enumerate 0 row)
                     else row) (enumerate 0 (zeros_image n))"
  have eq: "assign_image top_px left_px scale (zeros_image n) img = Inr ?r"
    using assms(1) b unfolding assign_image_def Let_def zeros_image_nth(1) by simp
  have "length ?r = n" by (simp add: zeros_image_nth(1))
  moreover have "length (?r ! i) = n \<and>
               (\<forall>j < n. ?r ! i ! j =
                  (if top_px \<le> i \<and> i < top_px + scale \<and> left_px \<le> j \<and> j < left_px + scale
                   then img ! (i - top_px) ! (j - left_px) else [0, 0, 0]))" if i: "i < n" for i
    using i b by (auto simp: nth_enumerate_eq zeros_image_nth in_slice_def slice_bound_nat slice_bound_nat_add)
  ultimately show ?thesis using eq by blast
qed

lemma in_slice_interior:
  assumes "1 \<le> b" "i < n"
  shows "in_slice (int a + 1) (int b - 1) n i \<longleftrightarrow> a + 1 \<le> i \<and> i + 1 < b"
proof -
  have "int a + 1 = int (a + 1)" by simp
  then have lo: "slice_bound (int a + 1) n = min (a + 1) n"
    by (simp only: slice_bound_nat)
  have "int b - 1 = int (b - 1)" using assms(1) by simp
  then have hi: "slice_bound (int b - 1) n = min (b - 1) n"
    by (simp only: slice_bound_nat)
  show ?thesis unfolding in_slice_def lo hi using assms by auto
qed

lemma preprocess_small:
  assumes "0 < mask_size ds" "mask_size ds \<le> size_ds ds" "0 < scale" "scale \<le> size_ds ds"
    and "has_shape scale scale (resample scale img)"
    and "top_px + scale \<le> size_ds ds" "left_px + scale \<le> size_ds ds"
  shows "\<exists>inst. preprocess ds resample (top_px, left_px) img scale =
           Inr (inst,
                assign_scalar
                  (int (top_px div (size_ds ds div mask_size ds)) + 1)
                  (int ((top_px + scale) div (size_ds ds div mask_size ds)) - 1)
                  (int (left_px div (size_ds ds div mask_size ds)) + 1)
                  (int ((left_px + scale) div (size_ds ds div mask_size ds)) - 1)
                  1 (full (size_ds ds div (size_ds ds div mask_size ds)) 0)) \<and>
           length inst = size_ds ds \<and>
           (\<forall>i < size_ds ds. length (inst ! i) = size_ds ds \<and>
              (\<forall>j < size_ds ds. inst ! i ! j =
                 (if top_px \<le> i \<and> i < top_px + scale \<and> left_px \<le> j \<and> j < left_px + scale
                  then scale_pixels (resample scale img) ! (i - top_px) ! (j - left_px)
                  else [0, 0, 0])))"
proof -
  have f: "0 < size_ds ds div mask_size ds" using assms(1,2) by (simp add: div_greater_zero_iff)
  have sh: "has_shape scale scale (scale_pixels (resample scale img))"
    using assms(5) by (simp add: has_shape_scale_pixels)
  obtain r where r: "assign_image top_px left_px scale (zeros_image (size_ds ds))
                       (scale_pixels (resample scale img)) = Inr r"
    and rest: "length r = size_ds ds \<and> (\<forall>i < size_ds ds. length (r ! i) = size_ds ds \<and>
               (\<forall>j < size_ds ds. r ! i ! j =
                  (if top_px \<le> i \<and> i < top_px + scale \<and> left_px \<le> j \<and> j < left_px + scale
                   then scale_pixels (resample scale img) ! (i - top_px) ! (j - left_px)
                   else [0, 0, 0])))"
    using assign_image_ok[OF sh assms(6,7)] by blast
  have "preprocess ds resample (top_px, left_px) img scale =
           Inr (r,
                assign_scalar
                  (int (top_px div (size_ds ds div mask_size ds)) + 1)
                  (int ((top_px + scale) div (size_ds ds div mask_size ds)) - 1)
                  (int (left_px div (size_ds ds div mask_size ds)) + 1)
                  (int ((left_px + scale) div (size_ds ds div mask_size ds)) - 1)
                  1 (full (size_ds ds div (size_ds ds div mask_size ds)) 0))"
    using assms(1,3,4) f r by (simp add: preprocess_def Let_def)
  then show ?thesis using rest by blast
qed

lemma interior_mask:
  assumes "0 < factor" "factor \<le> top_px + scale" "factor \<le> left_px + scale"
  shows "ones_only_in_interior factor top_px left_px scale
           (assign_scalar (int (top_px div factor) + 1) (int ((top_px + scale) div factor) - 1)
              (int (left_px div factor) + 1) (int ((left_px + scale) div factor) - 1)
              1 (full n 0))"
  unfolding ones_only_in_interior_def
proof (intro ballI impI)
  let ?m = "assign_scalar (int (top_px div factor) + 1) (int ((top_px + scale) div factor) - 1)
              (int (left_px div factor) + 1) (int ((left_px + scale) div factor) - 1)
              1 (full n 0)"
  fix i j assume "i \<in> set [0..<length ?m]" "j \<in> set [0..<length (?m ! i)]" and one: "?m ! i ! j = 1"
  then have i: "i < n" and j: "j < n"
    by (simp_all add: length_assign_scalar length_assign_scalar_nth length_full)
  have bt: "1 \<le> (top_px + scale) div factor" and bl: "1 \<le> (left_px + scale) div factor"
    using assms by (simp_all add: div_greater_zero_iff Suc_le_eq)
  have "in_slice (int (top_px div factor) + 1) (int ((top_px + scale) div factor) - 1) n i \<and>
        in_slice (int (left_px div factor) + 1) (int ((left_px + scale) div factor) - 1) n j"
    using one i j by (simp add: assign_scalar_nth length_full full_nth split: if_splits)
  then show "int (top_px div factor) + 1 \<le> int i \<and> int i < int ((top_px + scale) div factor) - 1 \<and>
          int (left_px div factor) + 1 \<le> int j \<and> int j < int ((left_px + scale) div factor) - 1"
    using in_slice_interior[OF bt i] in_slice_interior[OF bl j] by auto
qed

lemma example_resample_shape: "has_shape 4 4 (nearest 4 [[[255, 0, 0]]])"
  by code_simp

lemma example_small_mask:
  "map_sum id snd (preprocess example_dataset nearest (0, 0) [[[255, 0, 0]]] 1) =
     Inr [[0, 0, 0], [0, 1, 0], [0, 0, 0]]"
  by code_simp

text \<open>
  C8 (amended). Let the dataset have \<open>0 < mask_size \<le> size\<close>, let the resizing return
  a \<open>scale\<close> by \<open>scale\<close> RGB image, and let \<open>top\<close> and \<open>left\<close> be in the range of
  their draws. For every scale with \<open>0 < scale \<le> size\<close>, \<^verbatim>\<open>preprocess\<close> returns an
  instance image of shape \<open>(size, size, 3)\<close> that is zero everywhere outside the square
  \<open>[top, top + scale)\<close> by \<open>[left, left + scale)\<close>, and, provided
  \<open>top + scale \<ge> factor\<close> and \<open>left + scale \<ge> factor\<close>, a mask whose ones lie only in
  the interior \<open>[top // factor + 1, (top + scale) // factor - 1)\<close> by
  \<open>[left // factor + 1, (left + scale) // factor - 1)\<close>. For every scale greater than
  \<open>size\<close> it returns the \<open>size\<close> by \<open>size\<close> crop of the resized image at
  \<open>(top, left)\<close> with a mask that is all ones.
\<close>

theorem preprocess_spec:
  assumes "0 < mask_size ds" and "mask_size ds \<le> size_ds ds" and "0 < scale"
    and "has_shape scale scale (resample scale img)"
  shows
    "(scale \<le> size_ds ds \<and> top_px \<le> size_ds ds - scale \<and> left_px \<le> size_ds ds - scale \<longrightarrow>
        (\<exists>inst m. preprocess ds resample (top_px, left_px) img scale = Inr (inst, m) \<and>
           has_shape (size_ds ds) (size_ds ds) inst \<and>
           zero_outside top_px left_px scale inst \<and>
           (size_ds ds div mask_size ds \<le> top_px + scale \<and>
            size_ds ds div mask_size ds \<le> left_px + scale \<longrightarrow>
              ones_only_in_interior (size_ds ds div mask_size ds) top_px left_px scale m))) \<and>
     (size_ds ds < scale \<and> top_px \<le> scale - size_ds ds \<and> left_px \<le> scale - size_ds ds \<longrightarrow>
        (\<exists>inst m. preprocess ds resample (top_px, left_px) img scale = Inr (inst, m) \<and>
           has_shape (size_ds ds) (size_ds ds) inst \<and>
           inst = crop top_px left_px (size_ds ds) (scale_pixels (resample scale img)) \<and>
           (\<forall>i < size_ds ds. \<forall>j < size_ds ds.
              inst ! i ! j = scale_pixels (resample scale img) ! (top_px + i) ! (left_px + j)) \<and>
           all_ones m))"
proof (intro conjI impI)
  assume a: "scale \<le> size_ds ds \<and> top_px \<le> size_ds ds - scale \<and> left_px \<le> size_ds ds - scale"
  then have le: "scale \<le> size_ds ds" "top_px + scale \<le> size_ds ds" "left_px + scale \<le> size_ds ds"
    by auto
  have f: "0 < size_ds ds div mask_size ds" using assms(1,2) by (simp add: div_greater_zero_iff)
  let ?m = "assign_scalar
              (int (top_px div (size_ds ds div mask_size ds)) + 1)
              (int ((top_px + scale) div (size_ds ds div mask_size ds)) - 1)
              (int (left_px div (size_ds ds div mask_size ds)) + 1)
              (int ((left_px + scale) div (size_ds ds div mask_size ds)) - 1)
              1 (full (size_ds ds div (size_ds ds div mask_size ds)) 0)"
  obtain inst where p: "preprocess ds resample (top_px, left_px) img scale = Inr (inst, ?m)"
    and len: "length inst = size_ds ds"
    and el: "\<And>i. i < size_ds ds \<Longrightarrow> length (inst ! i) = size_ds ds"
            "\<And>i j. i < size_ds ds \<Longrightarrow> j < size_ds ds \<Longrightarrow> inst ! i ! j =
                 (if top_px \<le> i \<and> i < top_px + scale \<and> left_px \<le> j \<and> j < left_px + scale
                  then scale_pixels (resample scale img) ! (i - top_px) ! (j - left_px)
                  else [0, 0, 0])"
    using preprocess_small[where resample = resample and img = img,
        OF assms(1,2,3) le(1) assms(4) le(2,3)] by blast
  have sp: "has_shape scale scale (scale_pixels (resample scale img))"
    using assms(4) by (simp add: has_shape_scale_pixels)
  have px: "length (inst ! i ! j) = 3" if "i < size_ds ds" "j < size_ds ds" for i j
  proof (cases "top_px \<le> i \<and> i < top_px + scale \<and> left_px \<le> j \<and> j < left_px + scale")
    case True
    then have "i - top_px < scale" "j - left_px < scale" by auto
    then have "length (scale_pixels (resample scale img) ! (i - top_px) ! (j - left_px)) = 3"
      using sp unfolding has_shape_nth by blast
    then show ?thesis using el(2)[OF that] True by simp
  next
    case False
    then show ?thesis using el(2)[OF that] by auto
  qed
  have shape: "has_shape (size_ds ds) (size_ds ds) inst"
    unfolding has_shape_nth using len el(1) px by blast
  have zero: "zero_outside top_px left_px scale inst"
    unfolding zero_outside_def using len el by auto
  have "size_ds ds div mask_size ds \<le> top_px + scale \<and>
        size_ds ds div mask_size ds \<le> left_px + scale \<longrightarrow>
          ones_only_in_interior (size_ds ds div mask_size ds) top_px left_px scale ?m"
    using interior_mask[OF f] by blast
  then show "\<exists>inst m. preprocess ds resample (top_px, left_px) img scale = Inr (inst, m) \<and>
           has_shape (size_ds ds) (size_ds ds) inst \<and>
           zero_outside top_px left_px scale inst \<and>
           (size_ds ds div mask_size ds \<le> top_px + scale \<and>
            size_ds ds div mask_size ds \<le> left_px + scale \<longrightarrow>
              ones_only_in_interior (size_ds ds div mask_size ds) top_px left_px scale m)"
    using p shape zero by blast
next
  assume a: "size_ds ds < scale \<and> top_px \<le> scale - size_ds ds \<and> left_px \<le> scale - size_ds ds"
  then have le: "size_ds ds < scale" "top_px + size_ds ds \<le> scale" "left_px + size_ds ds \<le> scale"
    by auto
  have sp: "has_shape scale scale (scale_pixels (resample scale img))"
    using assms(4) by (simp add: has_shape_scale_pixels)
  note c = crop_shape[OF sp le(2,3)]
  have "all_ones (full (size_ds ds div (size_ds ds div mask_size ds)) 1)"
    by (auto simp: all_ones_def full_def)
  then show "\<exists>inst m. preprocess ds resample (top_px, left_px) img scale = Inr (inst, m) \<and>
           has_shape (size_ds ds) (size_ds ds) inst \<and>
           inst = crop top_px left_px (size_ds ds) (scale_pixels (resample scale img)) \<and>
           (\<forall>i < size_ds ds. \<forall>j < size_ds ds.
              inst ! i ! j = scale_pixels (resample scale img) ! (top_px + i) ! (left_px + j)) \<and>
           all_ones m"
    using preprocess_large[OF assms(1,2) le(1)] c by simp
qed

theorem preprocess_spec_witness:
  "\<exists>inst m. preprocess example_dataset nearest (1, 2) [[[255, 0, 0]]] 4 = Inr (inst, m) \<and>
     has_shape 6 6 inst \<and> zero_outside 1 2 4 inst \<and> ones_only_in_interior 2 1 2 4 m"
proof -
  have h: "0 < mask_size example_dataset" "mask_size example_dataset \<le> size_ds example_dataset"
    "(0::nat) < 4"
    by (simp_all add: example_dataset_def)
  show ?thesis
    using preprocess_spec[where resample = nearest and img = "[[[255, 0, 0]]]",
        OF h example_resample_shape, of 1 2]
    by (simp add: example_dataset_def)
qed

text \<open>
  As stated, for every scale in \<open>0 < scale \<le> size\<close>, the claim fails: with
  \<open>size = 6\<close>, \<open>mask_size = 3\<close> (so \<open>factor = 2\<close>), \<open>scale = 1\<close> and \<open>top = left = 0\<close>
  the upper bound \<open>(top + scale) // factor - 1\<close> is \<open>-1\<close>, the slice \<open>1:-1\<close> counts from
  the end, and the mask has a one at row 1, column 1, although the interior
  \<open>[1, -1)\<close> is empty.
\<close>

theorem preprocess_spec_counterexample:
  "map_sum id snd (preprocess example_dataset nearest (0, 0) [[[255, 0, 0]]] 1) =
     Inr [[0, 0, 0], [0, 1, 0], [0, 0, 0]] \<and>
   \<not> ones_only_in_interior (size_ds example_dataset div mask_size example_dataset) 0 0 1
       [[0, 0, 0], [0, 1, 0], [0, 0, 0]]"
proof -
  have "\<not> ones_only_in_interior (size_ds example_dataset div mask_size example_dataset) 0 0 1
       [[0, 0, 0], [0, 1, 0], [0, 0, 0]]"
    by code_simp
  then show ?thesis using example_small_mask by simp
qed

section \<open>The values of the mask\<close>

text \<open>The mask that \<^verbatim>\<open>preprocess\<close> returns holds zeros and ones only.\<close>

lemma assign_scalar_binary:
  assumes "row \<in> set (assign_scalar r0 r1 c0 c1 1 (full n 0))" "x \<in> set row"
  shows "x = 0 \<or> x = 1"
proof -
  let ?m = "assign_scalar r0 r1 c0 c1 1 (full n 0)"
  obtain i where i: "i < length ?m" "row = ?m ! i" using assms(1) by (metis in_set_conv_nth)
  obtain j where j: "j < length row" "x = row ! j" using assms(2) by (metis in_set_conv_nth)
  have "i < n" using i by (simp add: length_assign_scalar length_full)
  moreover have "j < n" using j i \<open>i < n\<close> by (simp add: length_assign_scalar_nth length_full)
  ultimately show ?thesis using i j by (simp add: assign_scalar_nth length_full full_nth)
qed

lemma preprocess_mask_binary:
  assumes "preprocess ds resample draws img scale = Inr (inst, m)" "row \<in> set m" "x \<in> set row"
  shows "x = 0 \<or> x = 1"
proof (cases "size_ds ds < scale")
  case True
  then have "m = full (size_ds ds div (size_ds ds div mask_size ds)) 1"
    using assms(1) by (auto simp: preprocess_def Let_def split: if_splits prod.splits)
  then show ?thesis using assms(2,3) by (auto simp: full_def)
next
  case False
  then obtain r0 r1 c0 c1 n where "m = assign_scalar r0 r1 c0 c1 1 (full n 0)"
    using assms(1) by (auto simp: preprocess_def Let_def split: if_splits prod.splits sum.splits)
  then show ?thesis using assign_scalar_binary assms(2,3) by blast
qed

text \<open>
  C5. The mask of an image is meant to be binary. With prior preservation
  \<^verbatim>\<open>get_one_mask\<close> adds an all-ones class mask to the mask of \<^verbatim>\<open>preprocess\<close>
  element by element (\<^verbatim>\<open>one_mask += class_mask\<close>), so its result holds ones and
  twos: for the dataset of the small run, without augmentation, the centre of the
  three by three mask is 2.
\<close>

theorem get_one_mask_prior_not_binary:
  "get_one_mask (example_args\<lparr>with_prior_preservation := True\<rparr>) example_dataset nearest 0 (0, 0)
     [[[255, 0, 0]]] =
   Inr [[1, 1, 1], [1, 2, 1], [1, 1, 1]]"
  by code_simp

end
